theory Spec2Isabelle
  imports
    Complex_Main
    "HOL-Library.Sublist"
    "HOL-Library.Multiset"
    "HOL-Library.Char_ord"
    "HOL-Library.List_Lexorder"
begin

section \<open>The table component of app.component.ts\<close>

text \<open>
  The component \<^verbatim>\<open>AppComponent\<close> keeps a list of records, a search box, a sort
  column with a direction and a page number. Its methods are embedded as functions
  from a component state to the next one. The behaviour subject \<^verbatim>\<open>dataSubject\<close>
  is its current value, and the observable \<^verbatim>\<open>sortedData\<close> is the list of the pages
  it has emitted, the latest first.

  The records have the three fields of the interface \<^verbatim>\<open>DataType\<close> and no others.
  A price is a finite number, here a real; \<^verbatim>\<open>NaN\<close> and the infinities are not
  modelled as prices. Page numbers are integers, and the result of
  \<^verbatim>\<open>Number(selectElement.value)\<close> is an integer or \<^verbatim>\<open>NaN\<close>: the options of the page
  selector are page indices, and fractional or infinite page numbers are not modelled.
  A string is held as the bytes of its UTF-8 form; for well-formed text one string
  occurs in another as bytes exactly when it does as code units.

  Three primitives belong to the language and not to the component:
  \<^verbatim>\<open>String.prototype.toLowerCase\<close>, \<^verbatim>\<open>Number.prototype.toString\<close> and
  \<^verbatim>\<open>String.prototype.localeCompare\<close>. They are parameters of the model: the search
  takes the first two in a record \<open>Host\<close>, and \<open>sortData\<close> takes the collation as
  its first argument. Every theorem about the component holds for whatever functions
  the host supplies. The timing of the debounce is not modelled: \<open>searchEmission\<close>
  is the subscriber that runs when a text comes through.
\<close>

subsection \<open>Records and values\<close>

datatype DataType = DataType (make: string) (model: string) (price: real)

datatype jsvalue = Undefined | Str string | Num real

datatype jstype = TUndefined | TString | TNumber

fun typeof :: "jsvalue \<Rightarrow> jstype" where
  "typeof Undefined = TUndefined"
| "typeof (Str _) = TString"
| "typeof (Num _) = TNumber"

text \<open>\<^verbatim>\<open>a[key]\<close> on a record of the interface \<^verbatim>\<open>DataType\<close>.\<close>

definition field :: "DataType \<Rightarrow> string \<Rightarrow> jsvalue" where
  "field a key =
     (if key = ''make'' then Str (make a)
      else if key = ''model'' then Str (model a)
      else if key = ''price'' then Num (price a)
      else Undefined)"

subsection \<open>String primitives\<close>

text \<open>
  The primitives of the language that the search calls: \<open>toLowerCase h\<close> stands for
  \<^verbatim>\<open>String.prototype.toLowerCase\<close> and \<open>toString h\<close> for
  \<^verbatim>\<open>Number.prototype.toString\<close>.
\<close>

record Host =
  toLowerCase :: "string \<Rightarrow> string"
  toString :: "real \<Rightarrow> string"

fun isPrefixOf :: "string \<Rightarrow> string \<Rightarrow> bool" where
  "isPrefixOf [] s = True"
| "isPrefixOf (c # cs) [] = False"
| "isPrefixOf (c # cs) (d # ds) = (c = d \<and> isPrefixOf cs ds)"

text \<open>\<^verbatim>\<open>s.includes(t)\<close>: \<open>t\<close> starts at some position of \<open>s\<close>.\<close>

fun includesStr :: "string \<Rightarrow> string \<Rightarrow> bool" where
  "includesStr [] t = (t = [])"
| "includesStr (c # cs) t = (isPrefixOf t (c # cs) \<or> includesStr cs t)"

subsection \<open>Array primitives\<close>

text \<open>
  \<^verbatim>\<open>xs.slice(start, fin)\<close>: a negative index counts from the end of the array, and
  both indices are clamped to the array.
\<close>

definition slice :: "'a list \<Rightarrow> int \<Rightarrow> int \<Rightarrow> 'a list" where
  "slice xs start fin =
     (let len = int (length xs);
          k = (if start < 0 then max (len + start) 0 else min start len);
          final = (if fin < 0 then max (len + fin) 0 else min fin len)
      in take (nat (final - k)) (drop (nat k) xs))"

text \<open>
  \<^verbatim>\<open>xs.sort(cmp)\<close> is a primitive of the language, which requires it to be stable
  and, for a consistent comparator, fixes its result. That result is the one of
  insertion from the right, each element being put in front of the first element that
  it does not follow; the comparator returns a number, and only its sign is used.
\<close>

fun insertBy :: "('a \<Rightarrow> 'a \<Rightarrow> real) \<Rightarrow> 'a \<Rightarrow> 'a list \<Rightarrow> 'a list" where
  "insertBy cmp x [] = [x]"
| "insertBy cmp x (y # ys) = (if cmp x y \<le> 0 then x # y # ys else y # insertBy cmp x ys)"

fun sortArray :: "('a \<Rightarrow> 'a \<Rightarrow> real) \<Rightarrow> 'a list \<Rightarrow> 'a list" where
  "sortArray cmp [] = []"
| "sortArray cmp (x # xs) = insertBy cmp x (sortArray cmp xs)"

subsection \<open>The component\<close>

datatype SortDirection = Asc | Desc

record AppComponent =
  data :: "DataType list"
  searchInput :: "string option"
  dataSubject :: "DataType list"
  sortedData :: "DataType list list"
  currentSortDirection :: "SortDirection option"
  currentSortAttribute :: "string option"
  currentPage :: int
  totalPages :: int

definition pageSize :: int where
  "pageSize = 10"

text \<open>\<^verbatim>\<open>Math.ceil(n / this.pageSize)\<close> for the length \<open>n\<close> of an array.\<close>

definition ceilDiv :: "nat \<Rightarrow> int" where
  "ceilDiv n = \<lceil>real n / real_of_int pageSize\<rceil>"

text \<open>
  \<^verbatim>\<open>dataSubject.next(xs)\<close>: the subject takes the value \<open>xs\<close>, and the pipe of the
  constructor emits the slice of \<open>xs\<close> for the page that is current at that moment.
\<close>

definition dataSubject_next :: "DataType list \<Rightarrow> AppComponent \<Rightarrow> AppComponent" where
  "dataSubject_next xs s =
     s\<lparr>dataSubject := xs,
       sortedData :=
         slice xs (currentPage s * pageSize) ((currentPage s + 1) * pageSize) # sortedData s\<rparr>"

text \<open>The page on display is the latest emission.\<close>

definition visiblePage :: "AppComponent \<Rightarrow> DataType list" where
  "visiblePage s = (case sortedData s of [] \<Rightarrow> [] | p # _ \<Rightarrow> p)"

text \<open>
  The state after the field initialisers and the constructor, for the dataset \<open>DATA\<close>
  of the file \<^verbatim>\<open>data.ts\<close>. The subject replays its value to the subscriber of
  \<^verbatim>\<open>sortedData\<close>, which is the first emission.
\<close>

definition constructor :: "DataType list \<Rightarrow> AppComponent" where
  "constructor DATA =
     \<lparr>data = DATA, searchInput = None, dataSubject = DATA,
      sortedData = [slice DATA (0 * pageSize) ((0 + 1) * pageSize)],
      currentSortDirection = None, currentSortAttribute = None,
      currentPage = 0, totalPages = ceilDiv (length DATA)\<rparr>"

text \<open>The callback of \<^verbatim>\<open>this.data.filter\<close> in \<open>searchData\<close>.\<close>

definition itemMatches :: "Host \<Rightarrow> string \<Rightarrow> DataType \<Rightarrow> bool" where
  "itemMatches h text item =
     (if includesStr (toLowerCase h (DataType.make item)) (toLowerCase h text) \<or>
         includesStr (toLowerCase h (model item)) (toLowerCase h text)
      then True
      else if includesStr (toString h (price item)) text then True
      else False)"

text \<open>
  The text is the value of the form control, which is \<^verbatim>\<open>null\<close> (here \<open>None\<close>) until
  something is typed. The test \<^verbatim>\<open>if (text)\<close> fails for \<^verbatim>\<open>null\<close> and for the empty
  string.
\<close>

definition searchData ::
  "Host \<Rightarrow> string option \<Rightarrow> AppComponent \<Rightarrow> DataType list \<times> AppComponent"
where
  "searchData h text s =
     (let filteredData =
            (case text of
               None \<Rightarrow> data s
             | Some t \<Rightarrow> if t \<noteq> [] then filter (itemMatches h t) (data s) else data s)
      in (filteredData, s\<lparr>totalPages := ceilDiv (length filteredData)\<rparr>))"

definition updateDisplayedData :: "Host \<Rightarrow> AppComponent \<Rightarrow> AppComponent" where
  "updateDisplayedData h s =
     (case searchData h (searchInput s) s of (filteredData, s') \<Rightarrow> dataSubject_next filteredData s')"

text \<open>The subscriber of the debounced \<^verbatim>\<open>valueChanges\<close> of the search box.\<close>

definition searchEmission :: "Host \<Rightarrow> string option \<Rightarrow> AppComponent \<Rightarrow> AppComponent" where
  "searchEmission h text s =
     (case searchData h text s of (filteredData, s') \<Rightarrow> dataSubject_next filteredData s')"

text \<open>Typing into the search box sets the value of the form control at once.\<close>

definition setValue :: "string option \<Rightarrow> AppComponent \<Rightarrow> AppComponent" where
  "setValue text s = s\<lparr>searchInput := text\<rparr>"

definition nextPage :: "Host \<Rightarrow> AppComponent \<Rightarrow> AppComponent" where
  "nextPage h s =
     (if currentPage s < totalPages s - 1
      then updateDisplayedData h (s\<lparr>currentPage := currentPage s + 1\<rparr>)
      else s)"

definition previousPage :: "Host \<Rightarrow> AppComponent \<Rightarrow> AppComponent" where
  "previousPage h s =
     (if currentPage s > 0
      then updateDisplayedData h (s\<lparr>currentPage := currentPage s - 1\<rparr>)
      else s)"

text \<open>The number that \<^verbatim>\<open>Number(selectElement.value)\<close> yields.\<close>

datatype jsnumber = NaN | Finite int

text \<open>Every comparison with \<^verbatim>\<open>NaN\<close> is false.\<close>

definition jumpToPage :: "Host \<Rightarrow> jsnumber \<Rightarrow> AppComponent \<Rightarrow> AppComponent" where
  "jumpToPage h selectedPage s =
     (case selectedPage of
        NaN \<Rightarrow> s
      | Finite n \<Rightarrow>
          if n \<ge> 0 \<and> n < totalPages s
          then updateDisplayedData h (s\<lparr>currentPage := n\<rparr>)
          else s)"

text \<open>The comparator of \<open>sortData\<close> before the direction is applied.\<close>

fun comparison :: "(string \<Rightarrow> string \<Rightarrow> real) \<Rightarrow> jsvalue \<Rightarrow> jsvalue \<Rightarrow> real" where
  "comparison localeCompare (Str valueA) (Str valueB) = localeCompare valueA valueB"
| "comparison localeCompare (Num valueA) (Num valueB) = valueA - valueB"
| "comparison localeCompare valueA valueB = 0"

definition compareFn ::
  "(string \<Rightarrow> string \<Rightarrow> real) \<Rightarrow> string \<Rightarrow> SortDirection option \<Rightarrow> DataType \<Rightarrow> DataType \<Rightarrow> real"
where
  "compareFn localeCompare sortAttribute direction a b =
     (let c = comparison localeCompare (field a sortAttribute) (field b sortAttribute)
      in if direction = Some Desc then - c else c)"

definition sortData :: "(string \<Rightarrow> string \<Rightarrow> real) \<Rightarrow> string \<Rightarrow> AppComponent \<Rightarrow> AppComponent" where
  "sortData localeCompare sortAttribute s =
     (let sortedArray = dataSubject s;
          s' = (if currentSortAttribute s = Some sortAttribute
                then s\<lparr>currentSortDirection :=
                         (if currentSortDirection s = Some Asc then Some Desc else Some Asc)\<rparr>
                else s\<lparr>currentSortAttribute := Some sortAttribute,
                       currentSortDirection := Some Asc\<rparr>)
      in dataSubject_next
           (sortArray (compareFn localeCompare sortAttribute (currentSortDirection s')) sortedArray)
           s')"

subsection \<open>The words of the specification\<close>

text \<open>
  The definitions of this subsection follow the specification, not the code: they say
  what a claim promises, and the theorems compare them with the component.
\<close>

text \<open>
  A record matches a text when the text is empty, or the lower-case form of its make
  or of its model contains the lower-case form of the text, or the string that the
  host gives for its price contains the text.
\<close>

definition textMatches :: "Host \<Rightarrow> string \<Rightarrow> DataType \<Rightarrow> bool" where
  "textMatches h t r =
     (t = [] \<or>
      sublist (toLowerCase h t) (toLowerCase h (DataType.make r)) \<or>
      sublist (toLowerCase h t) (toLowerCase h (model r)) \<or>
      sublist t (toString h (price r)))"

text \<open>Step 2 of the pipeline: the records of the dataset that match, in dataset order.\<close>

definition filterStep :: "Host \<Rightarrow> string option \<Rightarrow> DataType list \<Rightarrow> DataType list" where
  "filterStep h text DATA =
     (case text of None \<Rightarrow> DATA | Some t \<Rightarrow> filter (textMatches h t) DATA)"

text \<open>Step 3: the sort on the current attribute, when there is one.\<close>

definition sortStep ::
  "(string \<Rightarrow> string \<Rightarrow> real) \<Rightarrow> string option \<Rightarrow> SortDirection option \<Rightarrow>
   DataType list \<Rightarrow> DataType list"
where
  "sortStep localeCompare attribute direction xs =
     (case attribute of
        None \<Rightarrow> xs
      | Some a \<Rightarrow> sortArray (compareFn localeCompare a direction) xs)"

text \<open>Step 4: the page \<open>p\<close> of a sequence.\<close>

definition pageStep :: "int \<Rightarrow> DataType list \<Rightarrow> DataType list" where
  "pageStep p xs = slice xs (p * pageSize) ((p + 1) * pageSize)"

text \<open>Steps 1 to 4 in this order, for a search text and the query state of \<open>s\<close>.\<close>

definition specPipeline ::
  "(string \<Rightarrow> string \<Rightarrow> real) \<Rightarrow> Host \<Rightarrow> string option \<Rightarrow> AppComponent \<Rightarrow>
   DataType list"
where
  "specPipeline localeCompare h text s =
     pageStep (currentPage s)
       (sortStep localeCompare (currentSortAttribute s) (currentSortDirection s)
          (filterStep h text (data s)))"

text \<open>The invariant that the specification states for the page index.\<close>

definition pageInvariant :: "AppComponent \<Rightarrow> bool" where
  "pageInvariant s = (0 \<le> currentPage s \<and> currentPage s < max 1 (totalPages s))"

text \<open>The page count agrees with the text that the search box holds.\<close>

definition pagesInSync :: "Host \<Rightarrow> AppComponent \<Rightarrow> bool" where
  "pagesInSync h s = (totalPages s = ceilDiv (length (filterStep h (searchInput s) (data s))))"

text \<open>The digits of a natural number in base ten.\<close>

definition digitChar :: "nat \<Rightarrow> char" where
  "digitChar d = ''0123456789'' ! d"

fun digits :: "nat \<Rightarrow> string" where
  "digits n = (if n < 10 then [digitChar n] else digits (n div 10) @ [digitChar (n mod 10)])"

declare digits.simps [simp del]

text \<open>
  The decimal string of a whole number, as the claim about the search has it: the sign
  and all the digits.
\<close>

definition decimalString :: "int \<Rightarrow> string" where
  "decimalString n = (if n < 0 then CHR ''-'' # digits (nat (- n)) else digits (nat n))"

text \<open>
  A collation is consistent when swapping its arguments swaps the sign of its result
  and when it is transitive: the conditions under which the language fixes the result
  of a sort.
\<close>

definition consistentComparator :: "('a \<Rightarrow> 'a \<Rightarrow> real) \<Rightarrow> bool" where
  "consistentComparator cmp =
     ((\<forall>a b. (cmp a b < 0) = (0 < cmp b a)) \<and>
      (\<forall>a b c. cmp a b \<le> 0 \<longrightarrow> cmp b c \<le> 0 \<longrightarrow> cmp a c \<le> 0))"

text \<open>No two different records of \<open>xs\<close> have sort keys that compare equal.\<close>

definition tieFree ::
  "(string \<Rightarrow> string \<Rightarrow> real) \<Rightarrow> string \<Rightarrow> DataType list \<Rightarrow> bool"
where
  "tieFree localeCompare sortAttribute xs =
     (\<forall>x \<in> set xs. \<forall>y \<in> set xs.
        comparison localeCompare (field x sortAttribute) (field y sortAttribute) = 0 \<longrightarrow> x = y)"

subsection \<open>Sample inputs\<close>

text \<open>A collation for the examples: the order of the character codes.\<close>

definition codeUnitCompare :: "string \<Rightarrow> string \<Rightarrow> real" where
  "codeUnitCompare a b = (if a < b then - 1 else if a = b then 0 else 1)"

text \<open>
  A host for the examples. Its \<open>toLowerCase\<close> folds the letters A to Z and leaves
  every other byte, which is what the language does on ASCII text. Its \<open>toString\<close>
  is for whole numbers of at most 15 significant digits, where the language prints the
  sign and the digits when there are at most 21 digits, and from 22 digits on the
  first digit, the other significant digits after a point, and the exponent: 1e+21 for
  ten to the power 21.
\<close>

definition asciiLowerChar :: "char \<Rightarrow> char" where
  "asciiLowerChar c =
     (case map_of (zip ''ABCDEFGHIJKLMNOPQRSTUVWXYZ'' ''abcdefghijklmnopqrstuvwxyz'') c of
        None \<Rightarrow> c
      | Some d \<Rightarrow> d)"

definition exponentForm :: "string \<Rightarrow> string" where
  "exponentForm ds =
     (let significant = rev (dropWhile (\<lambda>c. c = CHR ''0'') (rev ds))
      in (case significant of
            [] \<Rightarrow> []
          | d # others \<Rightarrow>
              d # (if others = [] then [] else CHR ''.'' # others) @ ''e+'' @
                digits (length ds - 1)))"

definition wholeNumberString :: "int \<Rightarrow> string" where
  "wholeNumberString n =
     (let ds = digits (nat \<bar>n\<bar>)
      in (if n < 0 then ''-'' else []) @ (if length ds \<le> 21 then ds else exponentForm ds))"

definition sampleHost :: Host where
  "sampleHost =
     \<lparr>toLowerCase = map asciiLowerChar, toString = (\<lambda>x. wholeNumberString \<lfloor>x\<rfloor>)\<rparr>"

text \<open>The dataset itself is in a file of its own; the examples run on this one.\<close>

definition exampleData :: "DataType list" where
  "exampleData =
     [DataType ''Toyota'' ''Corolla'' 21000,
      DataType ''Honda'' ''Civic'' 23000,
      DataType ''Ford'' ''Focus'' 19000,
      DataType ''Audi'' ''A4'' 39000,
      DataType ''BMW'' ''X3'' 45000,
      DataType ''Kia'' ''Rio'' 16000,
      DataType ''Mazda'' ''CX5'' 28000,
      DataType ''Nissan'' ''Leaf'' 31000,
      DataType ''Tesla'' ''Model3'' 42000,
      DataType ''Volvo'' ''XC40'' 36000,
      DataType ''Skoda'' ''Fabia'' 17000,
      DataType ''Honda'' ''Accord'' 27000,
      DataType ''Ford'' ''Fiesta'' 15000,
      DataType ''Audi'' ''Q5'' 48000,
      DataType ''BMW'' ''i4'' 56000,
      DataType ''Toyota'' ''Yaris'' 18000,
      DataType ''Kia'' ''Sportage'' 29000,
      DataType ''Mazda'' ''MX5'' 33000,
      DataType ''Nissan'' ''Micra'' 14000,
      DataType ''Volvo'' ''V60'' 41000,
      DataType ''Skoda'' ''Octavia'' 24000,
      DataType ''Seat'' ''Ibiza'' 16000,
      DataType ''Fiat'' ''Panda'' 13000,
      DataType ''Jeep'' ''Compass'' 34000,
      DataType ''Mini'' ''Cooper'' 26000]"

text \<open>Two records with one price.\<close>

definition tiedData :: "DataType list" where
  "tiedData = [DataType ''Honda'' ''Civic'' 20000, DataType ''Toyota'' ''Corolla'' 20000]"

text \<open>One record whose price is ten to the power 21.\<close>

definition dearData :: "DataType list" where
  "dearData = [DataType ''Bugatti'' ''Chiron'' 1000000000000000000000]"

text \<open>Two records, the dearer one first.\<close>

definition smallData :: "DataType list" where
  "smallData = [DataType ''Honda'' ''Civic'' 23000, DataType ''Audi'' ''A4'' 19000]"

section \<open>Evaluation and the primitives\<close>

lemma digits_small: "n < 10 \<Longrightarrow> digits n = [digitChar n]"
  by (simp add: digits.simps)

lemma digits_large: "\<not> n < 10 \<Longrightarrow> digits n = digits (n div 10) @ [digitChar (n mod 10)]"
  by (subst digits.simps) simp

lemma ceilDiv_eq: "ceilDiv n = (int n + 9) div 10"
proof -
  have "\<lceil>real n / 10\<rceil> = \<lceil>real_of_int (int n) / real_of_int 10\<rceil>"
    by simp
  also have "\<dots> = - (- int n div 10)"
    by (rule ceiling_divide_eq_div)
  also have "\<dots> = (int n + 9) div 10"
    by presburger
  finally show ?thesis
    by (simp add: ceilDiv_def pageSize_def)
qed

lemmas eval_simps =
  digits_small digits_large digitChar_def decimalString_def wholeNumberString_def
  exponentForm_def sampleHost_def asciiLowerChar_def Let_def
  itemMatches_def slice_def pageSize_def ceilDiv_eq

lemma isPrefixOf_prefix: "isPrefixOf t s \<longleftrightarrow> prefix t s"
  by (induction t s rule: isPrefixOf.induct) simp_all

lemma includesStr_sublist: "includesStr s t \<longleftrightarrow> sublist t s"
  by (induction s) (simp_all add: isPrefixOf_prefix sublist_Cons_right)

lemma itemMatches_spec: "t \<noteq> [] \<Longrightarrow> itemMatches h t r = textMatches h t r"
  by (auto simp: itemMatches_def textMatches_def includesStr_sublist)

lemma filteredData_eq:
  "(case tx of
      None \<Rightarrow> data s
    | Some t \<Rightarrow> if t \<noteq> [] then filter (itemMatches h t) (data s) else data s) =
   filterStep h tx (data s)"
proof (cases tx)
  case None
  then show ?thesis by (simp add: filterStep_def)
next
  case (Some t)
  show ?thesis
  proof (cases "t = []")
    case True
    with Some show ?thesis by (simp add: filterStep_def textMatches_def)
  next
    case False
    with Some show ?thesis
      by (simp add: filterStep_def itemMatches_spec cong: filter_cong)
  qed
qed

lemma searchData_eq:
  "searchData h tx s =
     (filterStep h tx (data s),
      s\<lparr>totalPages := ceilDiv (length (filterStep h tx (data s)))\<rparr>)"
  by (simp add: searchData_def filteredData_eq Let_def)

lemma updateDisplayedData_eq:
  "updateDisplayedData h s =
     dataSubject_next (filterStep h (searchInput s) (data s))
       (s\<lparr>totalPages := ceilDiv (length (filterStep h (searchInput s) (data s)))\<rparr>)"
  by (simp add: updateDisplayedData_def searchData_eq)

lemma searchEmission_eq:
  "searchEmission h tx s =
     dataSubject_next (filterStep h tx (data s))
       (s\<lparr>totalPages := ceilDiv (length (filterStep h tx (data s)))\<rparr>)"
  by (simp add: searchEmission_def searchData_eq)

lemma visiblePage_next:
  "visiblePage (dataSubject_next xs s) = pageStep (currentPage s) xs"
  by (simp add: visiblePage_def dataSubject_next_def pageStep_def)

subsection \<open>The fields after each operation\<close>

lemma filterStep_None: "filterStep h None xs = xs"
  by (simp add: filterStep_def)

lemma filterStep_Some: "t \<noteq> [] \<Longrightarrow> filterStep h (Some t) xs = filter (itemMatches h t) xs"
  by (simp add: filterStep_def itemMatches_spec cong: filter_cong)

lemma constructor_fields:
  "data (constructor DATA) = DATA"
  "searchInput (constructor DATA) = None"
  "dataSubject (constructor DATA) = DATA"
  "currentSortAttribute (constructor DATA) = None"
  "currentSortDirection (constructor DATA) = None"
  "currentPage (constructor DATA) = 0"
  "totalPages (constructor DATA) = ceilDiv (length DATA)"
  by (simp_all add: constructor_def)

lemma sortData_fields:
  "data (sortData lc attr s) = data s"
  "searchInput (sortData lc attr s) = searchInput s"
  "currentPage (sortData lc attr s) = currentPage s"
  "totalPages (sortData lc attr s) = totalPages s"
  by (simp_all add: sortData_def Let_def dataSubject_next_def)

lemma searchEmission_fields:
  "data (searchEmission h tx s) = data s"
  "searchInput (searchEmission h tx s) = searchInput s"
  "dataSubject (searchEmission h tx s) = filterStep h tx (data s)"
  "currentSortAttribute (searchEmission h tx s) = currentSortAttribute s"
  "currentSortDirection (searchEmission h tx s) = currentSortDirection s"
  "currentPage (searchEmission h tx s) = currentPage s"
  "totalPages (searchEmission h tx s) = ceilDiv (length (filterStep h tx (data s)))"
  by (simp_all add: searchEmission_eq dataSubject_next_def)

lemma setValue_fields:
  "data (setValue tx s) = data s"
  "searchInput (setValue tx s) = tx"
  "dataSubject (setValue tx s) = dataSubject s"
  "currentSortAttribute (setValue tx s) = currentSortAttribute s"
  "currentSortDirection (setValue tx s) = currentSortDirection s"
  "currentPage (setValue tx s) = currentPage s"
  "totalPages (setValue tx s) = totalPages s"
  by (simp_all add: setValue_def)

lemma updateDisplayedData_fields:
  "data (updateDisplayedData h s) = data s"
  "searchInput (updateDisplayedData h s) = searchInput s"
  "dataSubject (updateDisplayedData h s) = filterStep h (searchInput s) (data s)"
  "currentSortAttribute (updateDisplayedData h s) = currentSortAttribute s"
  "currentSortDirection (updateDisplayedData h s) = currentSortDirection s"
  "currentPage (updateDisplayedData h s) = currentPage s"
  "totalPages (updateDisplayedData h s) = ceilDiv (length (filterStep h (searchInput s) (data s)))"
  "visiblePage (updateDisplayedData h s) =
     pageStep (currentPage s) (filterStep h (searchInput s) (data s))"
  by (simp_all add: updateDisplayedData_eq dataSubject_next_def visiblePage_def pageStep_def)

lemma nextPage_fields:
  "data (nextPage h s) = data s"
  "searchInput (nextPage h s) = searchInput s"
  "currentSortAttribute (nextPage h s) = currentSortAttribute s"
  "currentSortDirection (nextPage h s) = currentSortDirection s"
  "dataSubject (nextPage h s) =
     (if currentPage s < totalPages s - 1
      then filterStep h (searchInput s) (data s) else dataSubject s)"
  "currentPage (nextPage h s) =
     (if currentPage s < totalPages s - 1 then currentPage s + 1 else currentPage s)"
  "totalPages (nextPage h s) =
     (if currentPage s < totalPages s - 1
      then ceilDiv (length (filterStep h (searchInput s) (data s))) else totalPages s)"
  by (simp_all add: nextPage_def updateDisplayedData_fields)

lemma previousPage_fields:
  "data (previousPage h s) = data s"
  "searchInput (previousPage h s) = searchInput s"
  "currentSortAttribute (previousPage h s) = currentSortAttribute s"
  "currentSortDirection (previousPage h s) = currentSortDirection s"
  "dataSubject (previousPage h s) =
     (if 0 < currentPage s then filterStep h (searchInput s) (data s) else dataSubject s)"
  "currentPage (previousPage h s) = (if 0 < currentPage s then currentPage s - 1 else currentPage s)"
  "totalPages (previousPage h s) =
     (if 0 < currentPage s
      then ceilDiv (length (filterStep h (searchInput s) (data s))) else totalPages s)"
  by (simp_all add: previousPage_def updateDisplayedData_fields)

lemma jumpToPage_fields:
  "data (jumpToPage h sel s) = data s"
  "searchInput (jumpToPage h sel s) = searchInput s"
  "currentSortAttribute (jumpToPage h sel s) = currentSortAttribute s"
  "currentSortDirection (jumpToPage h sel s) = currentSortDirection s"
  "dataSubject (jumpToPage h (Finite n) s) =
     (if 0 \<le> n \<and> n < totalPages s
      then filterStep h (searchInput s) (data s) else dataSubject s)"
  "currentPage (jumpToPage h (Finite n) s) =
     (if 0 \<le> n \<and> n < totalPages s then n else currentPage s)"
  "totalPages (jumpToPage h (Finite n) s) =
     (if 0 \<le> n \<and> n < totalPages s
      then ceilDiv (length (filterStep h (searchInput s) (data s))) else totalPages s)"
  "jumpToPage h NaN s = s"
  by (simp_all add: jumpToPage_def updateDisplayedData_fields split: jsnumber.splits)

lemmas field_simps' =
  constructor_fields sortData_fields searchEmission_fields setValue_fields
  nextPage_fields previousPage_fields jumpToPage_fields filterStep_None

lemma exampleData_honda:
  "filter (itemMatches sampleHost ''honda'') exampleData =
     [DataType ''Honda'' ''Civic'' 23000, DataType ''Honda'' ''Accord'' 27000]"
  by (simp add: exampleData_def eval_simps)

lemma length_exampleData: "length exampleData = 25"
  by (simp add: exampleData_def)

section \<open>Pagination bounds\<close>

text \<open>
  Claim C6. \<open>nextPage\<close> changes nothing, and emits nothing, when the current page is
  the last one or beyond; \<open>previousPage\<close> changes nothing when the current page is
  at most zero; \<open>jumpToPage\<close> changes nothing for a target below zero or at least
  \<open>totalPages\<close>, and for \<open>NaN\<close>. Each returns the state it was given.
\<close>

theorem navigation_out_of_range_noop:
  "(currentPage s \<ge> totalPages s - 1 \<longrightarrow> nextPage h s = s) \<and>
   (currentPage s \<le> 0 \<longrightarrow> previousPage h s = s) \<and>
   (n < 0 \<or> n \<ge> totalPages s \<longrightarrow> jumpToPage h (Finite n) s = s) \<and>
   jumpToPage h NaN s = s"
  by (simp add: nextPage_def previousPage_def jumpToPage_def)

theorem navigation_out_of_range_noop_witness:
  "totalPages (constructor smallData) - 1 \<le> currentPage (constructor smallData) \<and>
   currentPage (constructor smallData) \<le> 0 \<and>
   totalPages (constructor smallData) \<le> 5 \<and>
   nextPage sampleHost (constructor smallData) = constructor smallData \<and>
   previousPage sampleHost (constructor smallData) = constructor smallData \<and>
   jumpToPage sampleHost (Finite 5) (constructor smallData) = constructor smallData \<and>
   jumpToPage sampleHost NaN (constructor smallData) = constructor smallData"
  using navigation_out_of_range_noop
      [where s = "constructor smallData" and h = sampleHost and n = 5]
  by (simp add: constructor_def smallData_def ceilDiv_eq)

section \<open>Search\<close>

text \<open>
  Claim C5. Every call of \<open>searchData\<close> sets \<open>totalPages\<close> to the ceiling of the
  number of matching records over the page size: of the records that match \<open>t\<close> for a
  text \<open>t\<close>, of all records for \<^verbatim>\<open>null\<close>. The state that it returns already holds
  this count, and it is from this state that the search subscriber and
  \<open>updateDisplayedData\<close> emit the page; emitting leaves the count alone.
\<close>

theorem searchData_sets_totalPages:
  "totalPages (snd (searchData h (Some t) s)) =
     \<lceil>real (length (filter (textMatches h t) (data s))) / real_of_int pageSize\<rceil> \<and>
   totalPages (snd (searchData h None s)) = \<lceil>real (length (data s)) / real_of_int pageSize\<rceil> \<and>
   searchEmission h tx s = dataSubject_next (fst (searchData h tx s)) (snd (searchData h tx s)) \<and>
   updateDisplayedData h s =
     dataSubject_next (fst (searchData h (searchInput s) s)) (snd (searchData h (searchInput s) s)) \<and>
   totalPages (dataSubject_next xs s) = totalPages s"
  by (simp add: searchData_eq searchEmission_eq updateDisplayedData_eq filterStep_def
      ceilDiv_def dataSubject_next_def)

text \<open>
  Claim C2, as amended. For a search text \<open>t\<close>, \<open>searchData\<close> returns the records
  of the dataset that match \<open>t\<close>, and only those: a record is in the result exactly
  when it is in the dataset and \<open>t\<close> is empty, or the lower-case form of its make or
  of its model contains the lower-case form of \<open>t\<close>, or the string that
  \<^verbatim>\<open>toString\<close> gives for its price contains \<open>t\<close>. The result is the dataset with
  the other records left out, so the records keep their relative order. This holds for
  every text and every record, whatever \<^verbatim>\<open>toLowerCase\<close> and \<^verbatim>\<open>toString\<close> do.
\<close>

theorem searchData_filter_correct:
  "fst (searchData h (Some t) s) = filter (textMatches h t) (data s) \<and>
   (r \<in> set (fst (searchData h (Some t) s))) = (r \<in> set (data s) \<and> textMatches h t r) \<and>
   subseq (fst (searchData h (Some t) s)) (data s)"
  by (auto simp add: searchData_eq filterStep_def)

theorem searchData_filter_correct_witness:
  "fst (searchData sampleHost (Some ''honda'') (constructor exampleData)) =
     [DataType ''Honda'' ''Civic'' 23000, DataType ''Honda'' ''Accord'' 27000] \<and>
   filter (textMatches sampleHost ''honda'') exampleData =
     [DataType ''Honda'' ''Civic'' 23000, DataType ''Honda'' ''Accord'' 27000]"
proof -
  have "filter (textMatches sampleHost ''honda'') exampleData =
      filter (itemMatches sampleHost ''honda'') exampleData"
    by (simp add: itemMatches_spec cong: filter_cong)
  then show ?thesis
    using searchData_filter_correct
      [where h = sampleHost and t = "''honda''" and s = "constructor exampleData"]
    by (simp add: exampleData_honda constructor_fields)
qed

text \<open>
  Claim C2 as stated fails for a price of ten to the power 21 and the text 000: the
  decimal string of the price contains the text, and the record is not in the result,
  since \<^verbatim>\<open>toString\<close> gives 1e+21 for this price.
\<close>

theorem searchData_decimal_counterexample:
  "DataType ''Bugatti'' ''Chiron'' 1000000000000000000000 \<in> set (data (constructor dearData)) \<and>
   sublist ''000'' (decimalString 1000000000000000000000) \<and>
   toString sampleHost 1000000000000000000000 = ''1e+21'' \<and>
   DataType ''Bugatti'' ''Chiron'' 1000000000000000000000 \<notin>
     set (fst (searchData sampleHost (Some ''000'') (constructor dearData)))"
  by (simp add: constructor_def dearData_def searchData_def Let_def eval_simps
      includesStr_sublist [symmetric])

section \<open>Sort\<close>

lemma dataSubject_sortData:
  "dataSubject (sortData localeCompare attr s) =
     sortArray (compareFn localeCompare attr (currentSortDirection (sortData localeCompare attr s)))
       (dataSubject s)"
  by (simp add: sortData_def Let_def dataSubject_next_def)

lemma currentSortAttribute_sortData:
  "currentSortAttribute (sortData localeCompare attr s) = Some attr"
  by (simp add: sortData_def Let_def dataSubject_next_def)

lemma currentSortDirection_sortData:
  "currentSortDirection (sortData localeCompare attr s) =
     (if currentSortAttribute s = Some attr
      then (if currentSortDirection s = Some Asc then Some Desc else Some Asc)
      else Some Asc)"
  by (simp add: sortData_def Let_def dataSubject_next_def)

lemma filter_insertBy:
  assumes "cmp a b = 0" and "cmp b a = 0"
  shows "filter (\<lambda>z. z = a \<or> z = b) (insertBy cmp x ys) =
    (if x = a \<or> x = b then x # filter (\<lambda>z. z = a \<or> z = b) ys
     else filter (\<lambda>z. z = a \<or> z = b) ys)"
  using assms by (induction ys) auto

lemma filter_sortArray:
  assumes "cmp a b = 0" and "cmp b a = 0"
  shows "filter (\<lambda>z. z = a \<or> z = b) (sortArray cmp xs) = filter (\<lambda>z. z = a \<or> z = b) xs"
  using assms by (induction xs) (simp_all add: filter_insertBy [of cmp a b])

lemma compareFn_zero:
  "compareFn localeCompare attr d a b = 0 \<longleftrightarrow>
   comparison localeCompare (field a attr) (field b attr) = 0"
  by (simp add: compareFn_def Let_def)

lemma mset_insertBy: "mset (insertBy cmp x ys) = add_mset x (mset ys)"
  by (induction ys) simp_all

lemma mset_sortArray: "mset (sortArray cmp xs) = mset xs"
  by (induction xs) (simp_all add: mset_insertBy)

lemma set_insertBy: "set (insertBy cmp x ys) = insert x (set ys)"
  by (induction ys) auto

lemma set_sortArray: "set (sortArray cmp xs) = set xs"
  by (induction xs) (simp_all add: set_insertBy)

lemma consistent_swap: "consistentComparator cmp \<Longrightarrow> \<not> cmp a b \<le> 0 \<Longrightarrow> cmp b a \<le> 0"
  unfolding consistentComparator_def by (metis linorder_not_le order_less_imp_le)

lemma consistent_trans:
  "consistentComparator cmp \<Longrightarrow> cmp a b \<le> 0 \<Longrightarrow> cmp b c \<le> 0 \<Longrightarrow> cmp a c \<le> 0"
  unfolding consistentComparator_def by blast

lemma consistent_nonneg: "consistentComparator cmp \<Longrightarrow> cmp a b \<le> 0 \<Longrightarrow> 0 \<le> cmp b a"
  unfolding consistentComparator_def by (metis linorder_not_le order_less_irrefl order_less_le_trans)

lemma sorted_insertBy:
  assumes "consistentComparator cmp"
  shows "sorted_wrt (\<lambda>a b. cmp a b \<le> 0) ys \<Longrightarrow> sorted_wrt (\<lambda>a b. cmp a b \<le> 0) (insertBy cmp x ys)"
proof (induction ys)
  case Nil
  then show ?case by simp
next
  case (Cons y ys)
  show ?case
  proof (cases "cmp x y \<le> 0")
    case True
    have "cmp x z \<le> 0" if "z \<in> set ys" for z
      using Cons.prems that True consistent_trans [OF assms, of x y z] by simp
    with True Cons.prems show ?thesis by simp
  next
    case False
    then have "cmp y x \<le> 0"
      by (rule consistent_swap [OF assms])
    with False Cons show ?thesis
      by (simp add: set_insertBy)
  qed
qed

lemma sorted_sortArray:
  "consistentComparator cmp \<Longrightarrow> sorted_wrt (\<lambda>a b. cmp a b \<le> 0) (sortArray cmp xs)"
  by (induction xs) (simp_all add: sorted_insertBy)

lemma sorted_wrt_unique:
  assumes "\<And>x y. x \<in> set xs \<Longrightarrow> y \<in> set xs \<Longrightarrow> R x y \<Longrightarrow> R y x \<Longrightarrow> x = y"
    and "sorted_wrt R xs" and "sorted_wrt R ys" and "mset xs = mset ys"
  shows "xs = ys"
  using assms
proof (induction xs arbitrary: ys)
  case Nil
  then show ?case by simp
next
  case (Cons x xs)
  from Cons.prems(4) obtain y ys' where ys: "ys = y # ys'"
    by (cases ys) auto
  have sets: "set (x # xs) = set (y # ys')"
    using Cons.prems(4) ys by (metis set_mset_mset)
  have "x = y"
  proof (rule ccontr)
    assume neq: "x \<noteq> y"
    with sets have "x \<in> set ys'" and "y \<in> set xs"
      by auto
    with Cons.prems(2,3) ys have "R x y" and "R y x"
      by auto
    moreover have "x \<in> set (x # xs)" and "y \<in> set (x # xs)"
      using \<open>y \<in> set xs\<close> by simp_all
    ultimately have "x = y"
      using Cons.prems(1) by blast
    with neq show False by simp
  qed
  moreover have "xs = ys'"
  proof (rule Cons.IH)
    show "sorted_wrt R xs" using Cons.prems(2) by simp
    show "sorted_wrt R ys'" using Cons.prems(3) ys by simp
    show "mset xs = mset ys'" using Cons.prems(4) ys \<open>x = y\<close> by simp
    show "a = b" if "a \<in> set xs" "b \<in> set xs" "R a b" "R b a" for a b
      using that Cons.prems(1) [of a b] by simp
  qed
  ultimately show ?case using ys by simp
qed

lemma sortArray_negated_rev:
  assumes c1: "consistentComparator c1" and c2: "consistentComparator c2"
    and neg: "\<And>a b. c2 a b = - c1 a b"
    and tie: "\<And>x y. x \<in> set xs \<Longrightarrow> y \<in> set xs \<Longrightarrow> c1 x y = 0 \<Longrightarrow> x = y"
  shows "sortArray c2 (sortArray c1 xs) = rev (sortArray c1 xs)"
proof (rule sorted_wrt_unique [where R = "\<lambda>a b. c2 a b \<le> 0"])
  show "sorted_wrt (\<lambda>a b. c2 a b \<le> 0) (sortArray c2 (sortArray c1 xs))"
    by (rule sorted_sortArray [OF c2])
  have "sorted_wrt (\<lambda>a b. c1 a b \<le> 0) (sortArray c1 xs)"
    by (rule sorted_sortArray [OF c1])
  then have "sorted_wrt (\<lambda>a b. c2 b a \<le> 0) (sortArray c1 xs)"
    by (rule sorted_wrt_mono_rel [rotated]) (simp add: neg consistent_nonneg [OF c1])
  then show "sorted_wrt (\<lambda>a b. c2 a b \<le> 0) (rev (sortArray c1 xs))"
    by (simp add: sorted_wrt_rev)
  show "mset (sortArray c2 (sortArray c1 xs)) = mset (rev (sortArray c1 xs))"
    by (simp add: mset_sortArray)
  show "x = y"
    if "x \<in> set (sortArray c2 (sortArray c1 xs))" "y \<in> set (sortArray c2 (sortArray c1 xs))"
      "c2 x y \<le> 0" "c2 y x \<le> 0" for x y
  proof -
    from that(3,4) have "0 \<le> c1 x y" and "0 \<le> c1 y x"
      by (simp_all add: neg)
    moreover from \<open>0 \<le> c1 y x\<close> have "c1 x y \<le> 0"
      using consistent_swap [OF c1, of x y] consistent_nonneg [OF c1, of y x] c1
      unfolding consistentComparator_def by (metis linorder_not_le)
    ultimately have "c1 x y = 0" by simp
    with that(1,2) show ?thesis
      by (simp add: set_sortArray tie)
  qed
qed

lemma consistent_neg:
  assumes "consistentComparator cmp"
  shows "consistentComparator (\<lambda>a b. - cmp a b)"
proof -
  have lc1: "(cmp a b < 0) = (0 < cmp b a)" for a b
    using assms unfolding consistentComparator_def by blast
  have lc2: "cmp a b \<le> 0 \<Longrightarrow> cmp b c \<le> 0 \<Longrightarrow> cmp a c \<le> 0" for a b c
    using assms unfolding consistentComparator_def by blast
  have lc3: "(0 \<le> cmp a b) = (cmp b a \<le> 0)" for a b
    using lc1 [of a b] by linarith
  have lc4: "0 \<le> cmp a b \<Longrightarrow> 0 \<le> cmp b c \<Longrightarrow> 0 \<le> cmp a c" for a b c
    using lc2 [of c b a] by (simp add: lc3)
  show ?thesis
    unfolding consistentComparator_def
  proof (intro conjI allI impI)
    show "(- cmp a b < 0) = (0 < - cmp b a)" for a b
      using lc1 [of b a] by simp
    show "- cmp a b \<le> 0 \<Longrightarrow> - cmp b c \<le> 0 \<Longrightarrow> - cmp a c \<le> 0" for a b c
      using lc4 [of a b c] by simp
  qed
qed

lemma consistent_key:
  "consistentComparator cmp \<Longrightarrow> consistentComparator (\<lambda>a b. cmp (f a) (f b))"
  unfolding consistentComparator_def by blast

lemma consistent_difference: "consistentComparator (\<lambda>a b. (a::real) - b)"
  unfolding consistentComparator_def by auto

lemma consistent_zero: "consistentComparator (\<lambda>a b. 0)"
  unfolding consistentComparator_def by simp

lemma consistent_ascending:
  assumes "consistentComparator localeCompare"
  shows "consistentComparator
    (\<lambda>a b. comparison localeCompare (field a attr) (field b attr))"
proof -
  consider "attr = ''make''" | "attr = ''model''" | "attr = ''price''"
    | "attr \<noteq> ''make''" "attr \<noteq> ''model''" "attr \<noteq> ''price''"
    by blast
  then show ?thesis
  proof cases
    case 1
    then show ?thesis
      using consistent_key [OF assms, of DataType.make] by (simp add: field_def)
  next
    case 2
    then show ?thesis
      using consistent_key [OF assms, of model] by (simp add: field_def)
  next
    case 3
    then show ?thesis
      using consistent_key [OF consistent_difference, of price] by (simp add: field_def)
  next
    case 4
    then show ?thesis
      using consistent_zero by (simp add: field_def)
  qed
qed

lemma consistent_compareFn:
  assumes "consistentComparator localeCompare"
  shows "consistentComparator (compareFn localeCompare attr d)"
proof (cases "d = Some Desc")
  case True
  then have "compareFn localeCompare attr d =
      (\<lambda>a b. - comparison localeCompare (field a attr) (field b attr))"
    by (simp add: compareFn_def fun_eq_iff)
  then show ?thesis
    using consistent_neg [OF consistent_ascending [OF assms, of attr]] by simp
next
  case False
  then have "compareFn localeCompare attr d =
      (\<lambda>a b. comparison localeCompare (field a attr) (field b attr))"
    by (simp add: compareFn_def fun_eq_iff)
  then show ?thesis
    using consistent_ascending [OF assms, of attr] by simp
qed

lemma consistent_codeUnitCompare: "consistentComparator codeUnitCompare"
  unfolding consistentComparator_def codeUnitCompare_def by auto

lemma sortArray_neutral: "(\<And>x y. cmp x y = 0) \<Longrightarrow> sortArray cmp xs = xs"
  by (induction xs) (simp_all, metis insertBy.simps list.exhaust order_refl)

lemma field_unknown:
  "attr \<noteq> ''make'' \<Longrightarrow> attr \<noteq> ''model'' \<Longrightarrow> attr \<noteq> ''price'' \<Longrightarrow> field a attr = Undefined"
  by (simp add: field_def)

text \<open>
  Claim C7. When the two values that the comparator of \<open>sortData\<close> reads differ in
  type, or one of them is undefined, the comparison before the direction is applied
  is 0. The comparator has no failing branch: it is a total function to the numbers.
\<close>

theorem comparison_type_mismatch_neutral:
  "typeof valueA \<noteq> typeof valueB \<or> valueA = Undefined \<or> valueB = Undefined \<Longrightarrow>
   comparison localeCompare valueA valueB = 0"
  by (cases valueA; cases valueB) auto

theorem comparison_type_mismatch_neutral_witness:
  "typeof (Str ''Honda'') \<noteq> typeof (Num 23000) \<and>
   comparison codeUnitCompare (Str ''Honda'') (Num 23000) = 0 \<and>
   comparison codeUnitCompare Undefined (Num 23000) = 0"
  using comparison_type_mismatch_neutral [of "Str ''Honda''" "Num 23000" codeUnitCompare]
    comparison_type_mismatch_neutral [of Undefined "Num 23000" codeUnitCompare]
  by simp

text \<open>
  Claim C10. For an attribute that is none of make, model and price, the comparator
  is 0 on every pair, \<open>sortData\<close> leaves the sequence of the subject as it was and
  emits its current page, and it still records the attribute: the direction becomes
  ascending, or is toggled when the attribute was the current one already.
\<close>

theorem sortData_unknown_attribute:
  assumes "attr \<noteq> ''make''" and "attr \<noteq> ''model''" and "attr \<noteq> ''price''"
  shows "compareFn localeCompare attr d a b = 0 \<and>
    dataSubject (sortData localeCompare attr s) = dataSubject s \<and>
    visiblePage (sortData localeCompare attr s) = pageStep (currentPage s) (dataSubject s) \<and>
    currentSortAttribute (sortData localeCompare attr s) = Some attr \<and>
    currentSortDirection (sortData localeCompare attr s) =
      (if currentSortAttribute s = Some attr
       then (if currentSortDirection s = Some Asc then Some Desc else Some Asc)
       else Some Asc)"
proof -
  have zero: "compareFn localeCompare attr d' x y = 0" for d' x y
    using assms by (simp add: compareFn_def field_unknown)
  have same: "sortArray (compareFn localeCompare attr d') xs = xs" for d' xs
    by (rule sortArray_neutral) (rule zero)
  show ?thesis
    by (simp add: zero sortData_def Let_def same dataSubject_next_def visiblePage_def pageStep_def)
qed

theorem sortData_unknown_attribute_witness:
  "dataSubject (sortData codeUnitCompare ''colour'' (constructor smallData)) = smallData \<and>
   visiblePage (sortData codeUnitCompare ''colour'' (constructor smallData)) = smallData \<and>
   currentSortAttribute (sortData codeUnitCompare ''colour'' (constructor smallData)) =
     Some ''colour'' \<and>
   currentSortDirection (sortData codeUnitCompare ''colour'' (constructor smallData)) = Some Asc"
  using sortData_unknown_attribute
    [of "''colour''" codeUnitCompare None "hd smallData" "hd smallData" "constructor smallData"]
  by (simp add: constructor_def smallData_def pageStep_def eval_simps)

text \<open>
  Claim C8. \<open>sortData\<close> is stable: two records whose sort keys compare equal (the
  comparison is 0 whichever of the two comes first) occur in the sorted sequence in
  the order in which they occurred in the sequence that was sorted.
\<close>

theorem sortData_stable:
  assumes "comparison localeCompare (field a attr) (field b attr) = 0"
    and "comparison localeCompare (field b attr) (field a attr) = 0"
  shows "filter (\<lambda>z. z = a \<or> z = b) (dataSubject (sortData localeCompare attr s)) =
    filter (\<lambda>z. z = a \<or> z = b) (dataSubject s)"
  unfolding dataSubject_sortData
  by (rule filter_sortArray) (simp_all add: compareFn_zero assms)

theorem sortData_stable_witness:
  "filter (\<lambda>z. z = DataType ''Kia'' ''Rio'' 16000 \<or> z = DataType ''Seat'' ''Ibiza'' 16000)
     (dataSubject (sortData codeUnitCompare ''price'' (constructor exampleData))) =
   [DataType ''Kia'' ''Rio'' 16000, DataType ''Seat'' ''Ibiza'' 16000] \<and>
   filter (\<lambda>z. z = DataType ''Kia'' ''Rio'' 16000 \<or> z = DataType ''Seat'' ''Ibiza'' 16000)
     (dataSubject (sortData codeUnitCompare ''price''
        (sortData codeUnitCompare ''price'' (constructor exampleData)))) =
   [DataType ''Kia'' ''Rio'' 16000, DataType ''Seat'' ''Ibiza'' 16000]"
  using sortData_stable [of codeUnitCompare "DataType ''Kia'' ''Rio'' 16000" "''price''"
      "DataType ''Seat'' ''Ibiza'' 16000" "constructor exampleData"]
    sortData_stable [of codeUnitCompare "DataType ''Kia'' ''Rio'' 16000" "''price''"
      "DataType ''Seat'' ''Ibiza'' 16000" "sortData codeUnitCompare ''price'' (constructor exampleData)"]
  by (simp add: field_def constructor_def exampleData_def)

text \<open>
  Claim C4, as amended. Let the collation be consistent and let no two different
  records of the current sequence have sort keys that compare equal. Then the
  sequence after a second \<open>sortData\<close> on the same attribute is the reverse of the
  sequence after the first; and when the attribute was not the current one, the first
  call sorts ascending and the second descending.
\<close>

theorem sortData_twice_reverses:
  assumes "consistentComparator localeCompare"
    and "tieFree localeCompare attr (dataSubject s)"
  shows "dataSubject (sortData localeCompare attr (sortData localeCompare attr s)) =
      rev (dataSubject (sortData localeCompare attr s)) \<and>
    (currentSortAttribute s \<noteq> Some attr \<longrightarrow>
      currentSortDirection (sortData localeCompare attr s) = Some Asc \<and>
      currentSortDirection (sortData localeCompare attr (sortData localeCompare attr s)) =
        Some Desc)"
proof -
  define s1 where "s1 = sortData localeCompare attr s"
  define d1 where "d1 = currentSortDirection s1"
  define d2 where "d2 = currentSortDirection (sortData localeCompare attr s1)"
  have attr1: "currentSortAttribute s1 = Some attr"
    unfolding s1_def by (rule currentSortAttribute_sortData)
  have d2: "d2 = (if d1 = Some Asc then Some Desc else Some Asc)"
    unfolding d2_def d1_def
    by (subst currentSortDirection_sortData) (simp add: attr1)
  have d1: "d1 = Some Asc \<or> d1 = Some Desc"
    unfolding d1_def s1_def by (simp add: currentSortDirection_sortData)
  have first: "dataSubject s1 = sortArray (compareFn localeCompare attr d1) (dataSubject s)"
    unfolding d1_def s1_def by (rule dataSubject_sortData)
  have second: "dataSubject (sortData localeCompare attr s1) =
      sortArray (compareFn localeCompare attr d2) (dataSubject s1)"
    unfolding d2_def by (rule dataSubject_sortData)
  have neg: "compareFn localeCompare attr d2 a b = - compareFn localeCompare attr d1 a b" for a b
    using d1 by (auto simp: d2 compareFn_def)
  have tie: "x = y"
    if "x \<in> set (dataSubject s)" "y \<in> set (dataSubject s)"
      "compareFn localeCompare attr d1 x y = 0" for x y
    using assms(2) that unfolding tieFree_def compareFn_def Let_def
    by (auto split: if_splits)
  have "sortArray (compareFn localeCompare attr d2)
      (sortArray (compareFn localeCompare attr d1) (dataSubject s)) =
    rev (sortArray (compareFn localeCompare attr d1) (dataSubject s))"
    by (rule sortArray_negated_rev
        [OF consistent_compareFn [OF assms(1)] consistent_compareFn [OF assms(1)] neg tie])
  then have "dataSubject (sortData localeCompare attr s1) = rev (dataSubject s1)"
    by (simp add: first second)
  moreover have "currentSortAttribute s \<noteq> Some attr \<Longrightarrow> d1 = Some Asc"
    unfolding d1_def s1_def by (simp add: currentSortDirection_sortData)
  ultimately show ?thesis
    using d2 unfolding d1_def d2_def s1_def by simp
qed

theorem sortData_twice_reverses_witness:
  "tieFree codeUnitCompare ''price'' (dataSubject (constructor smallData)) \<and>
   dataSubject (sortData codeUnitCompare ''price'' (constructor smallData)) =
     [DataType ''Audi'' ''A4'' 19000, DataType ''Honda'' ''Civic'' 23000] \<and>
   dataSubject (sortData codeUnitCompare ''price''
       (sortData codeUnitCompare ''price'' (constructor smallData))) =
     [DataType ''Honda'' ''Civic'' 23000, DataType ''Audi'' ''A4'' 19000] \<and>
   currentSortDirection (sortData codeUnitCompare ''price''
       (sortData codeUnitCompare ''price'' (constructor smallData))) = Some Desc"
proof -
  have tf: "tieFree codeUnitCompare ''price'' (dataSubject (constructor smallData))"
    by (simp add: tieFree_def constructor_def smallData_def field_def)
  have first: "dataSubject (sortData codeUnitCompare ''price'' (constructor smallData)) =
     [DataType ''Audi'' ''A4'' 19000, DataType ''Honda'' ''Civic'' 23000]"
    by (simp add: dataSubject_sortData currentSortDirection_sortData constructor_def
        smallData_def compareFn_def field_def)
  show ?thesis
    using sortData_twice_reverses [OF consistent_codeUnitCompare tf] tf first
    by (simp add: constructor_def)
qed

text \<open>
  Claim C4 as stated fails on two records with one price: both calls keep them in
  their order, since the sort is stable, and the reverse swaps them.
\<close>

theorem sortData_twice_counterexample:
  "dataSubject (sortData codeUnitCompare ''price''
       (sortData codeUnitCompare ''price'' (constructor tiedData))) \<noteq>
   rev (dataSubject (sortData codeUnitCompare ''price'' (constructor tiedData)))"
  by (simp add: dataSubject_sortData currentSortDirection_sortData currentSortAttribute_sortData
      constructor_def tiedData_def compareFn_def field_def)

section \<open>Navigation\<close>

lemmas nav_simps =
  nextPage_def previousPage_def jumpToPage_def updateDisplayedData_eq searchEmission_eq
  dataSubject_next_def visiblePage_def pageStep_def

text \<open>
  Claim C9. A page navigation that passes its guard takes the subject to the records
  that match the text of the search box, in the order of the dataset, and emits the
  new page of that sequence; the sort attribute and the sort direction stay as they
  were. This holds for every state, so also when a sort attribute is set: an order
  that \<open>sortData\<close> had produced is lost.
\<close>

theorem navigation_discards_sort:
  "(currentPage s < totalPages s - 1 \<longrightarrow>
      dataSubject (nextPage h s) = filterStep h (searchInput s) (data s) \<and>
      visiblePage (nextPage h s) =
        pageStep (currentPage s + 1) (filterStep h (searchInput s) (data s)) \<and>
      currentSortAttribute (nextPage h s) = currentSortAttribute s \<and>
      currentSortDirection (nextPage h s) = currentSortDirection s) \<and>
   (0 < currentPage s \<longrightarrow>
      dataSubject (previousPage h s) = filterStep h (searchInput s) (data s) \<and>
      visiblePage (previousPage h s) =
        pageStep (currentPage s - 1) (filterStep h (searchInput s) (data s)) \<and>
      currentSortAttribute (previousPage h s) = currentSortAttribute s \<and>
      currentSortDirection (previousPage h s) = currentSortDirection s) \<and>
   (0 \<le> n \<and> n < totalPages s \<longrightarrow>
      dataSubject (jumpToPage h (Finite n) s) = filterStep h (searchInput s) (data s) \<and>
      visiblePage (jumpToPage h (Finite n) s) =
        pageStep n (filterStep h (searchInput s) (data s)) \<and>
      currentSortAttribute (jumpToPage h (Finite n) s) = currentSortAttribute s \<and>
      currentSortDirection (jumpToPage h (Finite n) s) = currentSortDirection s)"
  by (simp add: nav_simps)

theorem navigation_discards_sort_witness:
  "currentSortAttribute (sortData codeUnitCompare ''price'' (constructor exampleData)) =
     Some ''price'' \<and>
   visiblePage (sortData codeUnitCompare ''price'' (constructor exampleData)) =
     [DataType ''Fiat'' ''Panda'' 13000, DataType ''Nissan'' ''Micra'' 14000,
      DataType ''Ford'' ''Fiesta'' 15000, DataType ''Kia'' ''Rio'' 16000,
      DataType ''Seat'' ''Ibiza'' 16000, DataType ''Skoda'' ''Fabia'' 17000,
      DataType ''Toyota'' ''Yaris'' 18000, DataType ''Ford'' ''Focus'' 19000,
      DataType ''Toyota'' ''Corolla'' 21000, DataType ''Honda'' ''Civic'' 23000] \<and>
   visiblePage (nextPage sampleHost (sortData codeUnitCompare ''price'' (constructor exampleData))) =
     take 10 (drop 10 exampleData) \<and>
   currentSortAttribute (nextPage sampleHost (sortData codeUnitCompare ''price'' (constructor exampleData))) =
     Some ''price'' \<and>
   currentSortDirection (nextPage sampleHost (sortData codeUnitCompare ''price'' (constructor exampleData))) =
     Some Asc \<and>
   visiblePage (jumpToPage sampleHost (Finite 2)
       (sortData codeUnitCompare ''price'' (constructor exampleData))) = drop 20 exampleData \<and>
   visiblePage (previousPage sampleHost
       (nextPage sampleHost (sortData codeUnitCompare ''price'' (constructor exampleData)))) =
     take 10 exampleData"
proof -
  have shown: "visiblePage (sortData codeUnitCompare ''price'' (constructor exampleData)) =
     [DataType ''Fiat'' ''Panda'' 13000, DataType ''Nissan'' ''Micra'' 14000,
      DataType ''Ford'' ''Fiesta'' 15000, DataType ''Kia'' ''Rio'' 16000,
      DataType ''Seat'' ''Ibiza'' 16000, DataType ''Skoda'' ''Fabia'' 17000,
      DataType ''Toyota'' ''Yaris'' 18000, DataType ''Ford'' ''Focus'' 19000,
      DataType ''Toyota'' ''Corolla'' 21000, DataType ''Honda'' ''Civic'' 23000]"
    by (simp add: sortData_def Let_def dataSubject_next_def visiblePage_def constructor_def
        compareFn_def field_def slice_def pageSize_def exampleData_def)
  show ?thesis
    using shown
      navigation_discards_sort
        [where s = "sortData codeUnitCompare ''price'' (constructor exampleData)"
           and h = sampleHost and n = 2]
      navigation_discards_sort
        [where s = "nextPage sampleHost
                      (sortData codeUnitCompare ''price'' (constructor exampleData))"
           and h = sampleHost and n = 2]
    by (simp add: field_simps' currentSortAttribute_sortData currentSortDirection_sortData
        length_exampleData ceilDiv_eq pageStep_def slice_def pageSize_def exampleData_def)
qed

section \<open>The page invariant\<close>

text \<open>
  Claim C3, as amended. A call of \<open>sortData\<close> keeps the invariant
  \<open>0 \<le> currentPage < max 1 totalPages\<close>. A page navigation keeps it when the page
  count agrees with the text that the search box holds. A search emission leaves
  \<open>currentPage\<close> as it is and sets the page count, so the invariant holds after it
  exactly when the old page index is at least 0 and below the maximum of 1 and the new
  page count.
\<close>

theorem pageInvariant_preserved:
  "(pageInvariant s \<longrightarrow> pageInvariant (sortData localeCompare attr s)) \<and>
   (pageInvariant s \<and> pagesInSync h s \<longrightarrow>
      pageInvariant (nextPage h s) \<and> pageInvariant (previousPage h s) \<and>
      pageInvariant (jumpToPage h sel s)) \<and>
   pageInvariant (searchEmission h tx s) =
     (0 \<le> currentPage s \<and>
      currentPage s < max 1 (ceilDiv (length (filterStep h tx (data s)))))"
proof (intro conjI impI)
  show "pageInvariant (sortData localeCompare attr s)" if "pageInvariant s"
    using that by (simp add: pageInvariant_def sortData_fields)
  show "pageInvariant (nextPage h s)" if "pageInvariant s \<and> pagesInSync h s"
    using that by (auto simp: pageInvariant_def pagesInSync_def nextPage_fields)
  show "pageInvariant (previousPage h s)" if "pageInvariant s \<and> pagesInSync h s"
    using that by (auto simp: pageInvariant_def pagesInSync_def previousPage_fields)
  show "pageInvariant (jumpToPage h sel s)" if "pageInvariant s \<and> pagesInSync h s"
    using that by (cases sel) (auto simp: pageInvariant_def pagesInSync_def jumpToPage_fields)
  show "pageInvariant (searchEmission h tx s) =
     (0 \<le> currentPage s \<and>
      currentPage s < max 1 (ceilDiv (length (filterStep h tx (data s)))))"
    by (simp add: pageInvariant_def searchEmission_fields)
qed

theorem pageInvariant_preserved_witness:
  "pageInvariant (nextPage sampleHost (constructor exampleData)) \<and>
   pagesInSync sampleHost (nextPage sampleHost (constructor exampleData)) \<and>
   pageInvariant (sortData codeUnitCompare ''price'' (nextPage sampleHost (constructor exampleData))) \<and>
   pageInvariant (nextPage sampleHost (nextPage sampleHost (constructor exampleData))) \<and>
   pageInvariant (previousPage sampleHost (nextPage sampleHost (constructor exampleData))) \<and>
   pageInvariant (jumpToPage sampleHost (Finite 2) (nextPage sampleHost (constructor exampleData))) \<and>
   pageInvariant (searchEmission sampleHost None (nextPage sampleHost (constructor exampleData)))"
proof -
  have inv: "pageInvariant (nextPage sampleHost (constructor exampleData))"
    by (simp add: pageInvariant_def field_simps' length_exampleData ceilDiv_eq)
  have sync: "pagesInSync sampleHost (nextPage sampleHost (constructor exampleData))"
    by (simp add: pagesInSync_def field_simps' length_exampleData ceilDiv_eq)
  show ?thesis
    using inv sync
      pageInvariant_preserved
        [where s = "nextPage sampleHost (constructor exampleData)" and h = sampleHost
           and localeCompare = codeUnitCompare and attr = "''price''" and sel = "Finite 2"
           and tx = None]
    by (simp add: field_simps' length_exampleData ceilDiv_eq)
qed

text \<open>
  Claim C3 as stated fails for a search that shrinks the filtered set: on page 1 of
  the 25 sample records, the emission of the text honda leaves two records and one
  page, and the page index is still 1.
\<close>

theorem pageInvariant_counterexample:
  "pageInvariant (nextPage sampleHost (constructor exampleData)) \<and>
   \<not> pageInvariant
       (searchEmission sampleHost (Some ''honda'')
          (setValue (Some ''honda'') (nextPage sampleHost (constructor exampleData))))"
  by (simp add: pageInvariant_def field_simps' filterStep_Some exampleData_honda
      length_exampleData ceilDiv_eq)

section \<open>The derivation pipeline\<close>

text \<open>
  Claim C1, as amended. Every state mutation emits the slice
  \<open>[currentPage * pageSize, (currentPage + 1) * pageSize)\<close> of a sequence that it
  derives anew. After a search emission or a page change that passes its guard, the
  sequence is the dataset filtered by the search text, in dataset order and with no
  sort step; so the page is the one of the full pipeline when no sort attribute is
  set. After \<open>sortData\<close> the sequence is the one that the subject held before the
  call, sorted on the attribute in the new direction, with no new filter step.
\<close>

theorem mutation_publishes_page:
  "visiblePage (searchEmission h tx s) = pageStep (currentPage s) (filterStep h tx (data s)) \<and>
   (currentPage s < totalPages s - 1 \<longrightarrow>
      visiblePage (nextPage h s) =
        pageStep (currentPage s + 1) (filterStep h (searchInput s) (data s))) \<and>
   (0 < currentPage s \<longrightarrow>
      visiblePage (previousPage h s) =
        pageStep (currentPage s - 1) (filterStep h (searchInput s) (data s))) \<and>
   (0 \<le> n \<and> n < totalPages s \<longrightarrow>
      visiblePage (jumpToPage h (Finite n) s) =
        pageStep n (filterStep h (searchInput s) (data s))) \<and>
   visiblePage (sortData localeCompare attr s) =
     pageStep (currentPage s)
       (sortArray
          (compareFn localeCompare attr (currentSortDirection (sortData localeCompare attr s)))
          (dataSubject s)) \<and>
   (currentSortAttribute s = None \<longrightarrow>
      visiblePage (searchEmission h tx s) = specPipeline localeCompare h tx (searchEmission h tx s) \<and>
      visiblePage (updateDisplayedData h s) =
        specPipeline localeCompare h (searchInput s) (updateDisplayedData h s))"
  by (simp add: nav_simps specPipeline_def sortStep_def sortData_def Let_def)

theorem mutation_publishes_page_witness:
  "visiblePage (nextPage sampleHost (nextPage sampleHost (constructor exampleData))) =
     [DataType ''Skoda'' ''Octavia'' 24000, DataType ''Seat'' ''Ibiza'' 16000,
      DataType ''Fiat'' ''Panda'' 13000, DataType ''Jeep'' ''Compass'' 34000,
      DataType ''Mini'' ''Cooper'' 26000] \<and>
   visiblePage (previousPage sampleHost (nextPage sampleHost (constructor exampleData))) = take 10 exampleData \<and>
   visiblePage (jumpToPage sampleHost (Finite 2) (nextPage sampleHost (constructor exampleData))) =
     drop 20 exampleData \<and>
   visiblePage (searchEmission sampleHost None (nextPage sampleHost (constructor exampleData))) =
     take 10 (drop 10 exampleData) \<and>
   visiblePage (sortData codeUnitCompare ''price'' (nextPage sampleHost (constructor exampleData))) =
     [DataType ''Skoda'' ''Octavia'' 24000, DataType ''Mini'' ''Cooper'' 26000,
      DataType ''Honda'' ''Accord'' 27000, DataType ''Mazda'' ''CX5'' 28000,
      DataType ''Kia'' ''Sportage'' 29000, DataType ''Nissan'' ''Leaf'' 31000,
      DataType ''Mazda'' ''MX5'' 33000, DataType ''Jeep'' ''Compass'' 34000,
      DataType ''Volvo'' ''XC40'' 36000, DataType ''Audi'' ''A4'' 39000]"
proof -
  let ?s = "nextPage sampleHost (constructor exampleData)"
  have fields: "currentPage ?s = 1" "totalPages ?s = 3" "searchInput ?s = None"
    "data ?s = exampleData" "dataSubject ?s = exampleData"
    "currentSortAttribute ?s = None"
    by (simp_all add: field_simps' length_exampleData ceilDiv_eq)
  have pages: "pageStep 2 exampleData =
      [DataType ''Skoda'' ''Octavia'' 24000, DataType ''Seat'' ''Ibiza'' 16000,
       DataType ''Fiat'' ''Panda'' 13000, DataType ''Jeep'' ''Compass'' 34000,
       DataType ''Mini'' ''Cooper'' 26000]"
    "pageStep 2 exampleData = drop 20 exampleData"
    "pageStep 0 exampleData = take 10 exampleData"
    "pageStep 1 exampleData = take 10 (drop 10 exampleData)"
    by (simp_all add: pageStep_def slice_def pageSize_def exampleData_def)
  have sorted: "pageStep 1 (sortArray (compareFn codeUnitCompare ''price'' (Some Asc)) exampleData) =
     [DataType ''Skoda'' ''Octavia'' 24000, DataType ''Mini'' ''Cooper'' 26000,
      DataType ''Honda'' ''Accord'' 27000, DataType ''Mazda'' ''CX5'' 28000,
      DataType ''Kia'' ''Sportage'' 29000, DataType ''Nissan'' ''Leaf'' 31000,
      DataType ''Mazda'' ''MX5'' 33000, DataType ''Jeep'' ''Compass'' 34000,
      DataType ''Volvo'' ''XC40'' 36000, DataType ''Audi'' ''A4'' 39000]"
    by (simp add: pageStep_def slice_def pageSize_def exampleData_def compareFn_def field_def)
  have dir: "currentSortDirection (sortData codeUnitCompare ''price'' ?s) = Some Asc"
    by (simp add: currentSortDirection_sortData fields)
  note published =
    mutation_publishes_page
      [where h = sampleHost and tx = None and s = ?s and n = 2
         and localeCompare = codeUnitCompare and attr = "''price''"]
  have "visiblePage (nextPage sampleHost ?s) =
      [DataType ''Skoda'' ''Octavia'' 24000, DataType ''Seat'' ''Ibiza'' 16000,
       DataType ''Fiat'' ''Panda'' 13000, DataType ''Jeep'' ''Compass'' 34000,
       DataType ''Mini'' ''Cooper'' 26000]"
    using published by (simp add: fields filterStep_None pages(1))
  moreover have "visiblePage (previousPage sampleHost ?s) = take 10 exampleData"
    using published by (simp add: fields filterStep_None pages(3))
  moreover have "visiblePage (jumpToPage sampleHost (Finite 2) ?s) = drop 20 exampleData"
    using published by (simp add: fields filterStep_None pages(2))
  moreover have "visiblePage (searchEmission sampleHost None ?s) = take 10 (drop 10 exampleData)"
    using published by (simp add: fields filterStep_None pages(4))
  moreover have "visiblePage (sortData codeUnitCompare ''price'' ?s) =
     [DataType ''Skoda'' ''Octavia'' 24000, DataType ''Mini'' ''Cooper'' 26000,
      DataType ''Honda'' ''Accord'' 27000, DataType ''Mazda'' ''CX5'' 28000,
      DataType ''Kia'' ''Sportage'' 29000, DataType ''Nissan'' ''Leaf'' 31000,
      DataType ''Mazda'' ''MX5'' 33000, DataType ''Jeep'' ''Compass'' 34000,
      DataType ''Volvo'' ''XC40'' 36000, DataType ''Audi'' ''A4'' 39000]"
    using published by (simp add: fields dir sorted)
  ultimately show ?thesis
    by blast
qed

text \<open>
  Claim C1 as stated fails for a page change in a state with a sort attribute: after a
  sort on the price, a jump to page 0 emits the two sample records in dataset order,
  the dearer one first, where the full pipeline would sort them.
\<close>

theorem pipeline_counterexample:
  "currentSortAttribute
     (jumpToPage sampleHost (Finite 0) (sortData codeUnitCompare ''price'' (constructor smallData))) =
     Some ''price'' \<and>
   visiblePage
     (jumpToPage sampleHost (Finite 0) (sortData codeUnitCompare ''price'' (constructor smallData))) \<noteq>
   specPipeline codeUnitCompare sampleHost
     (searchInput
        (jumpToPage sampleHost (Finite 0) (sortData codeUnitCompare ''price'' (constructor smallData))))
     (jumpToPage sampleHost (Finite 0) (sortData codeUnitCompare ''price'' (constructor smallData)))"
  by (simp add: constructor_def sortData_def jumpToPage_def updateDisplayedData_eq
      dataSubject_next_def visiblePage_def compareFn_def field_def Let_def
      specPipeline_def sortStep_def filterStep_def pageStep_def smallData_def eval_simps)

end
